theory Spec2Isabelle
  imports Main
begin

section \<open>Conventions\<close>

text \<open>
  Strings are byte lists; a JavaScript string is represented by its UTF-8 encoding, which
  keeps equality and emptiness of strings as they are in the program.

  Exceptions of the program are values of \<open>js_error\<close>. An exception that escapes an event
  handler or a timer callback is reported by the browser and the page goes on: such a
  handler appends the exception to a log of uncaught errors and skips the rest of its body.

  The key-value store \<open>localStorage\<close> is a map from keys to strings: \<open>getItem\<close> reads
  \<open>None\<close> for \<open>null\<close>, and the store is taken to be available (reads and writes succeed).
\<close>

datatype js_error = TypeError

section \<open>The hero-image toggler (src/theme.js)\<close>

text \<open>
  The state the script owns or mutates: its counter, the \<open>data-theme\<close> attribute of the
  root element, and the \<open>src\<close> of the element with id \<open>heroImage\<close> (\<open>None\<close> when the page
  has no such element, in which case \<open>heroImage\<close> is \<open>null\<close>).
\<close>

record toggler =
  currentThemeIndex :: nat
  dataTheme :: "string option"
  heroImage :: "string option"
  togglerUncaught :: "js_error list"

definition themes :: "string list" where
  "themes = [''light'', ''dark'']"

text \<open>
  \<open>themes[i]\<close>: an index out of range reads \<open>undefined\<close>, which both \<open>setAttribute\<close> and the
  template literal turn into the string \<open>undefined\<close>.
\<close>

definition themeAt :: "nat \<Rightarrow> string" where
  "themeAt i = (if i < length themes then themes ! i else ''undefined'')"

text \<open>The click handler of lines 7 to 17.\<close>

definition click :: "toggler \<Rightarrow> toggler" where
  "click s =
    (let i = (currentThemeIndex s + 1) mod length themes;
         newTheme = themeAt i;
         s1 = s\<lparr>currentThemeIndex := i, dataTheme := Some newTheme\<rparr>
     in case heroImage s1 of
          None \<Rightarrow> s1\<lparr>togglerUncaught := togglerUncaught s1 @ [TypeError]\<rparr>
        | Some _ \<Rightarrow> s1\<lparr>heroImage := Some (''assets/hero-'' @ newTheme @ ''.svg'')\<rparr>)"

text \<open>
  Loading the script: line 7 dereferences the button, so a page without the element
  \<open>themeToggle\<close> raises a TypeError and no handler is ever registered. Otherwise the
  counter starts at 0 and the page is as the markup left it.
\<close>

definition loadToggler :: "bool \<Rightarrow> string option \<Rightarrow> string option \<Rightarrow> js_error + toggler" where
  "loadToggler hasButton attr img =
    (if hasButton
     then Inr \<lparr>currentThemeIndex = 0, dataTheme = attr, heroImage = img, togglerUncaught = []\<rparr>
     else Inl TypeError)"

fun clicks :: "nat \<Rightarrow> toggler \<Rightarrow> toggler" where
  "clicks 0 s = s"
| "clicks (Suc k) s = click (clicks k s)"

section \<open>The preference coordinator (class ThemeManager)\<close>

subsection \<open>JavaScript values\<close>

text \<open>
  The values an expression of the program can have. \<open>JBuiltin n\<close> is the built-in object
  that every object literal inherits under the property name \<open>n\<close> (a method of
  \<open>Object.prototype\<close>, its constructor, or the prototype itself).
\<close>

datatype jsval =
    JUndefined
  | JNull
  | JBoolean bool
  | JNumber int
  | JString string
  | JBuiltin string

fun truthy :: "jsval \<Rightarrow> bool" where
  "truthy JUndefined = False"
| "truthy JNull = False"
| "truthy (JBoolean b) = b"
| "truthy (JNumber n) = (n \<noteq> 0)"
| "truthy (JString s) = (s \<noteq> [])"
| "truthy (JBuiltin n) = True"

text \<open>Truthiness of what \<open>localStorage.getItem\<close> returns: \<open>null\<close> and the empty string are falsy.\<close>

definition truthyItem :: "string option \<Rightarrow> bool" where
  "truthyItem v = (case v of None \<Rightarrow> False | Some x \<Rightarrow> x \<noteq> [])"

text \<open>
  Reading \<open>obj[k]\<close> on an object literal finds the literal's own property, or else a
  property of \<open>Object.prototype\<close>, or else nothing. These are the string-named properties of
  \<open>Object.prototype\<close> in a browser.
\<close>

definition ObjectPrototype :: "string list" where
  "ObjectPrototype =
    [''constructor'', ''hasOwnProperty'', ''isPrototypeOf'', ''propertyIsEnumerable'',
     ''toLocaleString'', ''toString'', ''valueOf'', ''__proto__'',
     ''__defineGetter__'', ''__defineSetter__'', ''__lookupGetter__'', ''__lookupSetter__'']"

datatype 'a member = Own 'a | Inherited string | Missing

definition getMember :: "(string \<times> 'a) list \<Rightarrow> string \<Rightarrow> 'a member" where
  "getMember obj k =
    (case map_of obj k of
       Some v \<Rightarrow> Own v
     | None \<Rightarrow> if k \<in> set ObjectPrototype then Inherited k else Missing)"

fun memberValue :: "string member \<Rightarrow> jsval" where
  "memberValue (Own v) = JString v"
| "memberValue (Inherited n) = JBuiltin n"
| "memberValue Missing = JUndefined"

subsection \<open>Strings\<close>

text \<open>
  \<open>toLowerCase\<close> on the ASCII letters. A character outside ASCII is a sequence of bytes
  above 127 here and stays one, as its lower-case form in the program stays outside the
  lower-case ASCII letters of the supported codes; membership in the supported set is
  therefore the same.
\<close>

definition toLowerChar :: "char \<Rightarrow> char" where
  "toLowerChar c =
    (case map_of (zip ''ABCDEFGHIJKLMNOPQRSTUVWXYZ'' ''abcdefghijklmnopqrstuvwxyz'') c of
       Some d \<Rightarrow> d
     | None \<Rightarrow> c)"

definition toLowerCase :: "string \<Rightarrow> string" where
  "toLowerCase s = map toLowerChar s"

text \<open>\<open>s.split('-')[0]\<close>: the part of \<open>s\<close> before its first hyphen, all of \<open>s\<close> without one.\<close>

definition primarySubtag :: "string \<Rightarrow> string" where
  "primarySubtag s = takeWhile (\<lambda>c. c \<noteq> CHR ''-'') s"

subsection \<open>The page and the browser\<close>

datatype event =
    ThemeChange bool string
  | LanguageChange string string

datatype task =
    RemoveTransitionClass
  | SwapTranslations string bool
  | ClearTransitionStyle

record toggleButton =
  ariaLabel :: "string option"
  innerHTML :: string

record selectControl =
  selectOptions :: "string list"
  selectValue :: string

text \<open>
  An element carrying \<open>data-i18n\<close>. \<open>placeholder\<close> and \<open>textContent\<close> hold the value last
  assigned (the page shows its string form, which for \<open>JString s\<close> is \<open>s\<close>).
\<close>

record element =
  tagName :: string
  dataI18n :: string
  placeholder :: jsval
  textContent :: jsval

text \<open>
  What the coordinator reads and writes: the root element (class tokens in order, inline
  style, \<open>lang\<close>), the tagged elements, title and meta description, the two optional
  controls, the injected style sheet, the store, the dispatched events, the pending
  \<open>setTimeout\<close> callbacks with their delays, the console, the registered listeners, the
  uncaught errors and the reloads asked for.
\<close>

record page =
  rootClasses :: "string list"
  rootStyle :: "string \<rightharpoonup> string"
  rootLang :: "string option"
  taggedElements :: "element list"
  titleElement :: "jsval option"
  metaDescription :: "jsval option"
  themeToggle :: "toggleButton option"
  languageSelect :: "selectControl option"
  themeAnimations :: bool
  localStorage :: "string \<rightharpoonup> string"
  dispatched :: "event list"
  timers :: "(nat \<times> task) list"
  consoleWarnings :: "string list"
  schemeListeners :: nat
  toggleListeners :: nat
  selectListeners :: nat
  uncaught :: "js_error list"
  reloads :: nat

text \<open>
  What the browser reports: the \<open>prefers-color-scheme: dark\<close> media query,
  \<open>navigator.language\<close> and \<open>navigator.userLanguage\<close> (\<open>None\<close> for \<open>undefined\<close>), and the
  properties of the built-in objects (\<open>builtinGet n k\<close> reads property \<open>k\<close> of \<open>JBuiltin n\<close>;
  an accessor of the host may raise).
\<close>

record browser =
  prefersDark :: bool
  navigatorLanguage :: "string option"
  navigatorUserLanguage :: "string option"
  builtinGet :: "string \<Rightarrow> string \<Rightarrow> js_error + jsval"

subsection \<open>Constants of the constructor\<close>

definition THEME_STORAGE_KEY :: string where
  "THEME_STORAGE_KEY = ''portfolio-theme''"

definition LANGUAGE_STORAGE_KEY :: string where
  "LANGUAGE_STORAGE_KEY = ''portfolio-language''"

definition THEME_CLASS :: string where
  "THEME_CLASS = ''dark-theme''"

definition TRANSITION_CLASS :: string where
  "TRANSITION_CLASS = ''theme-transition''"

definition SUPPORTED_LANGUAGES :: "string list" where
  "SUPPORTED_LANGUAGES = [''en'', ''es'', ''fr'', ''de'', ''it'', ''pt'', ''ja'', ''zh'']"

subsection \<open>DOM primitives\<close>

text \<open>\<open>classList\<close> is an ordered set of tokens: \<open>add\<close> appends a token that is not there.\<close>

definition classList_add :: "string \<Rightarrow> string list \<Rightarrow> string list" where
  "classList_add c cs = (if c \<in> set cs then cs else cs @ [c])"

definition classList_remove :: "string \<Rightarrow> string list \<Rightarrow> string list" where
  "classList_remove c cs = filter (\<lambda>x. x \<noteq> c) cs"

definition classList_contains :: "string \<Rightarrow> string list \<Rightarrow> bool" where
  "classList_contains c cs = (c \<in> set cs)"

definition setProperty :: "string \<Rightarrow> string \<Rightarrow> page \<Rightarrow> page" where
  "setProperty n v s = s\<lparr>rootStyle := (rootStyle s)(n \<mapsto> v)\<rparr>"

definition setTimeout :: "task \<Rightarrow> nat \<Rightarrow> page \<Rightarrow> page" where
  "setTimeout t ms s = s\<lparr>timers := timers s @ [(ms, t)]\<rparr>"

definition setItem :: "string \<Rightarrow> string \<Rightarrow> page \<Rightarrow> page" where
  "setItem k v s = s\<lparr>localStorage := (localStorage s)(k \<mapsto> v)\<rparr>"

definition removeItem :: "string \<Rightarrow> page \<Rightarrow> page" where
  "removeItem k s = s\<lparr>localStorage := (localStorage s)(k := None)\<rparr>"

text \<open>Assigning \<open>select.value\<close> selects the option with that value, or none.\<close>

definition setSelectValue :: "string \<Rightarrow> selectControl \<Rightarrow> selectControl" where
  "setSelectValue v c = c\<lparr>selectValue := (if v \<in> set (selectOptions c) then v else [])\<rparr>"

subsection \<open>Theme\<close>

definition darkVariables :: "(string \<times> string) list" where
  "darkVariables =
    [(''--bg-primary'', ''#1a1a1a''),
     (''--bg-secondary'', ''#2d2d2d''),
     (''--text-primary'', ''#ffffff''),
     (''--text-secondary'', ''#b0b0b0''),
     (''--border-color'', ''#404040''),
     (''--shadow-color'', ''rgba(0, 0, 0, 0.3)''),
     (''--accent-color'', ''#6366f1'')]"

definition lightVariables :: "(string \<times> string) list" where
  "lightVariables =
    [(''--bg-primary'', ''#ffffff''),
     (''--bg-secondary'', ''#f5f5f5''),
     (''--text-primary'', ''#1a1a1a''),
     (''--text-secondary'', ''#666666''),
     (''--border-color'', ''#e0e0e0''),
     (''--shadow-color'', ''rgba(0, 0, 0, 0.1)''),
     (''--accent-color'', ''#6366f1'')]"

definition updateThemeVariables :: "bool \<Rightarrow> page \<Rightarrow> page" where
  "updateThemeVariables isDark s =
    fold (\<lambda>(n, v). setProperty n v) (if isDark then darkVariables else lightVariables) s"

definition dispatchThemeChangeEvent :: "bool \<Rightarrow> page \<Rightarrow> page" where
  "dispatchThemeChangeEvent isDark s =
    s\<lparr>dispatched := dispatched s @ [ThemeChange isDark (if isDark then ''dark'' else ''light'')]\<rparr>"


definition setTheme :: "bool \<Rightarrow> bool \<Rightarrow> page \<Rightarrow> page" where
  "setTheme isDark animate s =
    (let s1 = (if animate
               then s\<lparr>rootClasses := classList_add TRANSITION_CLASS (rootClasses s)\<rparr>
               else s);
         s2 = (if isDark
               then s1\<lparr>rootClasses := classList_add THEME_CLASS (rootClasses s1)\<rparr>
               else s1\<lparr>rootClasses := classList_remove THEME_CLASS (rootClasses s1)\<rparr>);
         s3 = setItem THEME_STORAGE_KEY (if isDark then ''dark'' else ''light'') s2;
         s4 = updateThemeVariables isDark s3;
         s5 = dispatchThemeChangeEvent isDark s4
     in if animate then setTimeout RemoveTransitionClass 300 s5 else s5)"

text \<open>The class tokens that lines 79 to 88 leave on the root element.\<close>

definition themeClasses :: "bool \<Rightarrow> bool \<Rightarrow> string list \<Rightarrow> string list" where
  "themeClasses isDark animate cs =
    (let cs1 = (if animate then classList_add TRANSITION_CLASS cs else cs)
     in if isDark then classList_add THEME_CLASS cs1 else classList_remove THEME_CLASS cs1)"

text \<open>The listener that \<open>initializeTheme\<close> registers on the media query (lines 38 to 42).\<close>

definition schemeChangeListener :: "bool \<Rightarrow> page \<Rightarrow> page" where
  "schemeChangeListener matches s =
    (if \<not> truthyItem (localStorage s THEME_STORAGE_KEY) then setTheme matches True s else s)"

text \<open>A change of the media query runs every listener registered on it.\<close>

definition schemeChanged :: "bool \<Rightarrow> page \<Rightarrow> page" where
  "schemeChanged matches s = (schemeChangeListener matches ^^ schemeListeners s) s"

definition initializeTheme :: "browser \<Rightarrow> page \<Rightarrow> page" where
  "initializeTheme b s =
    (let savedTheme = localStorage s THEME_STORAGE_KEY;
         isDark = (case savedTheme of
                     None \<Rightarrow> prefersDark b
                   | Some v \<Rightarrow> if v \<noteq> [] then v = ''dark'' else prefersDark b);
         s1 = setTheme isDark False s
     in s1\<lparr>schemeListeners := Suc (schemeListeners s1)\<rparr>)"

definition getCurrentTheme :: "page \<Rightarrow> string" where
  "getCurrentTheme s = (if classList_contains THEME_CLASS (rootClasses s) then ''dark'' else ''light'')"

definition SUN :: string where
  "SUN = [CHR 0xE2, CHR 0x98, CHR 0x80, CHR 0xEF, CHR 0xB8, CHR 0x8F]"

definition MOON :: string where
  "MOON = [CHR 0xF0, CHR 0x9F, CHR 0x8C, CHR 0x99]"

definition updateThemeToggleButton :: "page \<Rightarrow> page" where
  "updateThemeToggleButton s =
    (case themeToggle s of
       None \<Rightarrow> s
     | Some btn \<Rightarrow>
         (let isDark = classList_contains THEME_CLASS (rootClasses s)
          in s\<lparr>themeToggle := Some (btn\<lparr>
               ariaLabel := Some (if isDark then ''Switch to light theme''
                                  else ''Switch to dark theme''),
               innerHTML := (if isDark then SUN else MOON)\<rparr>)\<rparr>))"

definition toggleTheme :: "page \<Rightarrow> page" where
  "toggleTheme s =
    (let isDark = classList_contains THEME_CLASS (rootClasses s)
     in updateThemeToggleButton (setTheme (\<not> isDark) True s))"

subsection \<open>Language\<close>

text \<open>\<open>navigator.language || navigator.userLanguage\<close> (line 65).\<close>

definition browserLang :: "browser \<Rightarrow> string option" where
  "browserLang b =
    (case navigatorLanguage b of
       None \<Rightarrow> navigatorUserLanguage b
     | Some l \<Rightarrow> if l \<noteq> [] then Some l else navigatorUserLanguage b)"

text \<open>When the browser reports neither, \<open>browserLang.split\<close> is a call on \<open>undefined\<close>.\<close>

definition detectBrowserLanguage :: "browser \<Rightarrow> js_error + string" where
  "detectBrowserLanguage b =
    (case browserLang b of
       None \<Rightarrow> Inl TypeError
     | Some l \<Rightarrow>
         (let langCode = toLowerCase (primarySubtag l)
          in Inr (if langCode \<in> set SUPPORTED_LANGUAGES then langCode else ''en'')))"

definition setLanguage :: "string \<Rightarrow> bool \<Rightarrow> page \<Rightarrow> page" where
  "setLanguage langCode animate s =
    (let supported = (langCode \<in> set SUPPORTED_LANGUAGES);
         s0 = (if supported then s
               else s\<lparr>consoleWarnings := consoleWarnings s @
                      [''Language '' @ [CHR 0x22] @ langCode @ [CHR 0x22] @
                       '' not supported. Defaulting to English.'']\<rparr>);
         code = (if supported then langCode else ''en'');
         s1 = (if animate
               then s0\<lparr>rootStyle := (rootStyle s0)(''opacity'' \<mapsto> ''0.7'',
                         ''transition'' \<mapsto> ''opacity 0.3s ease-in-out'')\<rparr>
               else s0);
         s2 = s1\<lparr>rootLang := Some code\<rparr>;
         s3 = setItem LANGUAGE_STORAGE_KEY code s2
     in setTimeout (SwapTranslations code animate) 150 s3)"

definition initializeLanguage :: "browser \<Rightarrow> page \<Rightarrow> js_error option \<times> page" where
  "initializeLanguage b s =
    (let savedLanguage = localStorage s LANGUAGE_STORAGE_KEY;
         fromBrowser = (case detectBrowserLanguage b of
                          Inl e \<Rightarrow> (Some e, s)
                        | Inr browserLanguage \<Rightarrow> (None, setLanguage browserLanguage False s))
     in case savedLanguage of
          None \<Rightarrow> fromBrowser
        | Some v \<Rightarrow> if v \<noteq> [] \<and> v \<in> set SUPPORTED_LANGUAGES
                    then (None, setLanguage v False s)
                    else fromBrowser)"

definition getCurrentLanguage :: "page \<Rightarrow> string" where
  "getCurrentLanguage s =
    (case rootLang s of None \<Rightarrow> ''en'' | Some l \<Rightarrow> if l \<noteq> [] then l else ''en'')"

subsection \<open>Translations\<close>

definition translationsTable :: "(string \<times> (string \<times> string) list) list" where
  "translationsTable =
   [
    (''en'',
     [(''page-title'', ''Portfolio''),
      (''page-description'', ''Welcome to my portfolio''),
      (''theme-toggle'', ''Toggle Theme''),
      (''language-select'', ''Select Language'')]),
    (''es'',
     [(''page-title'', ''Portafolio''),
      (''page-description'', ''Bienvenido a mi portafolio''),
      (''theme-toggle'', ''Cambiar Tema''),
      (''language-select'', ''Seleccionar Idioma'')]),
    (''fr'',
     [(''page-title'', ''Portefeuille''),
      (''page-description'', ''Bienvenue dans mon portefeuille''),
      (''theme-toggle'', ''Basculer le th'' @ [CHR 0xC3, CHR 0xA8] @ ''me''),
      (''language-select'', ''S'' @ [CHR 0xC3, CHR 0xA9] @ ''lectionner la langue'')]),
    (''de'',
     [(''page-title'', ''Portfolio''),
      (''page-description'', ''Willkommen in meinem Portfolio''),
      (''theme-toggle'', ''Design wechseln''),
      (''language-select'', ''Sprache w'' @ [CHR 0xC3, CHR 0xA4] @ ''hlen'')]),
    (''it'',
     [(''page-title'', ''Portafoglio''),
      (''page-description'', ''Benvenuto nel mio portfolio''),
      (''theme-toggle'', ''Cambia tema''),
      (''language-select'', ''Seleziona lingua'')]),
    (''pt'',
     [(''page-title'', ''Portf'' @ [CHR 0xC3, CHR 0xB3] @ ''lio''),
      (''page-description'', ''Bem-vindo ao meu portf'' @ [CHR 0xC3, CHR 0xB3] @ ''lio''),
      (''theme-toggle'', ''Alternar tema''),
      (''language-select'', ''Selecionar idioma'')]),
    (''ja'',
     [(''page-title'',
         [CHR 0xE3, CHR 0x83, CHR 0x9D, CHR 0xE3, CHR 0x83, CHR 0xBC, CHR 0xE3,
          CHR 0x83, CHR 0x88, CHR 0xE3, CHR 0x83, CHR 0x95, CHR 0xE3, CHR 0x82,
          CHR 0xA9, CHR 0xE3, CHR 0x83, CHR 0xAA, CHR 0xE3, CHR 0x82, CHR 0xAA]),
      (''page-description'',
         [CHR 0xE3, CHR 0x83, CHR 0x9D, CHR 0xE3, CHR 0x83, CHR 0xBC, CHR 0xE3,
          CHR 0x83, CHR 0x88, CHR 0xE3, CHR 0x83, CHR 0x95, CHR 0xE3, CHR 0x82,
          CHR 0xA9, CHR 0xE3, CHR 0x83, CHR 0xAA, CHR 0xE3, CHR 0x82, CHR 0xAA,
          CHR 0xE3, CHR 0x81, CHR 0xB8, CHR 0xE3, CHR 0x82, CHR 0x88, CHR 0xE3,
          CHR 0x81, CHR 0x86, CHR 0xE3, CHR 0x81, CHR 0x93, CHR 0xE3, CHR 0x81,
          CHR 0x9D]),
      (''theme-toggle'',
         [CHR 0xE3, CHR 0x83, CHR 0x86, CHR 0xE3, CHR 0x83, CHR 0xBC, CHR 0xE3,
          CHR 0x83, CHR 0x9E, CHR 0xE3, CHR 0x82, CHR 0x92, CHR 0xE5, CHR 0x88,
          CHR 0x87, CHR 0xE3, CHR 0x82, CHR 0x8A, CHR 0xE6, CHR 0x9B, CHR 0xBF,
          CHR 0xE3, CHR 0x81, CHR 0x88, CHR 0xE3, CHR 0x82, CHR 0x8B]),
      (''language-select'',
         [CHR 0xE8, CHR 0xA8, CHR 0x80, CHR 0xE8, CHR 0xAA, CHR 0x9E, CHR 0xE3,
          CHR 0x82, CHR 0x92, CHR 0xE9, CHR 0x81, CHR 0xB8, CHR 0xE6, CHR 0x8A,
          CHR 0x9E])]),
    (''zh'',
     [(''page-title'',
         [CHR 0xE4, CHR 0xBD, CHR 0x9C, CHR 0xE5, CHR 0x93, CHR 0x81, CHR 0xE9,
          CHR 0x9B, CHR 0x86]),
      (''page-description'',
         [CHR 0xE6, CHR 0xAC, CHR 0xA2, CHR 0xE8, CHR 0xBF, CHR 0x8E, CHR 0xE6,
          CHR 0x9D, CHR 0xA5, CHR 0xE5, CHR 0x88, CHR 0xB0, CHR 0xE6, CHR 0x88,
          CHR 0x91, CHR 0xE7, CHR 0x9A, CHR 0x84, CHR 0xE4, CHR 0xBD, CHR 0x9C,
          CHR 0xE5, CHR 0x93, CHR 0x81, CHR 0xE9, CHR 0x9B, CHR 0x86]),
      (''theme-toggle'',
         [CHR 0xE5, CHR 0x88, CHR 0x87, CHR 0xE6, CHR 0x8D, CHR 0xA2, CHR 0xE4,
          CHR 0xB8, CHR 0xBB, CHR 0xE9, CHR 0xA2, CHR 0x98]),
      (''language-select'',
         [CHR 0xE9, CHR 0x80, CHR 0x89, CHR 0xE6, CHR 0x8B, CHR 0xA9, CHR 0xE8,
          CHR 0xAF, CHR 0xAD, CHR 0xE8, CHR 0xA8, CHR 0x80])])]"

text \<open>
  Line 256: \<open>translations[langCode]?.[key] || translations['en'][key] || key\<close>. The first
  operand reads the table of the language, which for a name inherited from
  \<open>Object.prototype\<close> is a built-in object of the host.
\<close>

definition getTranslation ::
  "(string \<Rightarrow> string \<Rightarrow> js_error + jsval) \<Rightarrow> string \<Rightarrow> string \<Rightarrow> js_error + jsval" where
  "getTranslation host langCode key =
    (let first = (case getMember translationsTable langCode of
                    Own t \<Rightarrow> Inr (memberValue (getMember t key))
                  | Inherited n \<Rightarrow> host n key
                  | Missing \<Rightarrow> Inr JUndefined);
         second = (case getMember translationsTable ''en'' of
                     Own t \<Rightarrow> Inr (memberValue (getMember t key))
                   | Inherited n \<Rightarrow> host n key
                   | Missing \<Rightarrow> Inl TypeError)
     in case first of
          Inl e \<Rightarrow> Inl e
        | Inr v1 \<Rightarrow>
            if truthy v1 then Inr v1
            else (case second of
                    Inl e \<Rightarrow> Inl e
                  | Inr v2 \<Rightarrow> if truthy v2 then Inr v2 else Inr (JString key)))"

text \<open>
  The entry of the table for a language and a key, as the specification speaks of it: the
  string that the source text of the table gives for the pair, when it gives one.
\<close>

definition tableEntry :: "string \<Rightarrow> string \<Rightarrow> string option" where
  "tableEntry langCode key =
    (case map_of translationsTable langCode of
       None \<Rightarrow> None
     | Some t \<Rightarrow> map_of t key)"





subsection \<open>Timer callbacks\<close>



subsection \<open>Controls, construction and reset\<close>

definition setupEventListeners :: "browser \<Rightarrow> page \<Rightarrow> js_error option \<times> page" where
  "setupEventListeners b s =
    (let s1 = (case themeToggle s of
                 None \<Rightarrow> s
               | Some _ \<Rightarrow> updateThemeToggleButton (s\<lparr>toggleListeners := Suc (toggleListeners s)\<rparr>))
     in case languageSelect s1 of
          None \<Rightarrow> (None, s1)
        | Some c \<Rightarrow>
            (let s2 = s1\<lparr>selectListeners := Suc (selectListeners s1)\<rparr>;
                 stored = localStorage s2 LANGUAGE_STORAGE_KEY;
                 currentLang = (if truthyItem stored
                                then (case stored of Some v \<Rightarrow> Inr v | None \<Rightarrow> detectBrowserLanguage b)
                                else detectBrowserLanguage b)
             in case currentLang of
                  Inl e \<Rightarrow> (Some e, s2)
                | Inr l \<Rightarrow> (None, s2\<lparr>languageSelect := Some (setSelectValue l c)\<rparr>)))"

definition applyAnimationStyles :: "page \<Rightarrow> page" where
  "applyAnimationStyles s = (if themeAnimations s then s else s\<lparr>themeAnimations := True\<rparr>)"

text \<open>The constructor, lines 12 to 23: an exception ends it where it is raised.\<close>

definition ThemeManager :: "browser \<Rightarrow> page \<Rightarrow> js_error option \<times> page" where
  "ThemeManager b s =
    (let s1 = initializeTheme b s
     in case initializeLanguage b s1 of
          (Some e, s2) \<Rightarrow> (Some e, s2)
        | (None, s2) \<Rightarrow>
            (case setupEventListeners b s2 of
               (Some e, s3) \<Rightarrow> (Some e, s3)
             | (None, s3) \<Rightarrow> (None, applyAnimationStyles s3)))"

text \<open>
  Lines 492 to 498 construct the coordinator once the document is ready; an exception of
  the constructor is uncaught.
\<close>

definition startup :: "browser \<Rightarrow> page \<Rightarrow> page" where
  "startup b s =
    (case ThemeManager b s of
       (Some e, s') \<Rightarrow> s'\<lparr>uncaught := uncaught s' @ [e]\<rparr>
     | (None, s') \<Rightarrow> s')"

definition resetToSystemPreferences :: "page \<Rightarrow> page" where
  "resetToSystemPreferences s =
    (let s1 = removeItem THEME_STORAGE_KEY s;
         s2 = removeItem LANGUAGE_STORAGE_KEY s1
     in s2\<lparr>reloads := Suc (reloads s2)\<rparr>)"

text \<open>
  A reload parses the document again and keeps the store: the page is the one the markup
  gives, with the store of the page that was left, and the coordinator starts on it.
\<close>

definition reload :: "browser \<Rightarrow> page \<Rightarrow> page \<Rightarrow> page" where
  "reload b markup s = startup b (markup\<lparr>localStorage := localStorage s\<rparr>)"

subsection \<open>The life of a page\<close>





subsection \<open>A sample page and browser\<close>

text \<open>
  A page as its markup gives it: a bare root element, two tagged elements, title, meta
  description and both controls, an empty store. And a browser whose built-in objects
  expose no properties of their own.
\<close>

definition samplePage :: page where
  "samplePage =
    \<lparr>rootClasses = [''no-js''],
     rootStyle = Map.empty,
     rootLang = Some ''en'',
     taggedElements =
       [\<lparr>tagName = ''H1'', dataI18n = ''page-title'',
          placeholder = JUndefined, textContent = JString ''Portfolio''\<rparr>,
        \<lparr>tagName = ''INPUT'', dataI18n = ''search'',
          placeholder = JString ''Search'', textContent = JString []\<rparr>],
     titleElement = Some (JString ''Portfolio''),
     metaDescription = Some (JString ''Welcome to my portfolio''),
     themeToggle = Some \<lparr>ariaLabel = None, innerHTML = []\<rparr>,
     languageSelect = Some \<lparr>selectOptions = SUPPORTED_LANGUAGES, selectValue = ''en''\<rparr>,
     themeAnimations = False,
     localStorage = Map.empty,
     dispatched = [],
     timers = [],
     consoleWarnings = [],
     schemeListeners = 0,
     toggleListeners = 0,
     selectListeners = 0,
     uncaught = [],
     reloads = 0\<rparr>"

definition sampleBrowser :: "bool \<Rightarrow> string \<Rightarrow> browser" where
  "sampleBrowser dark locale =
    \<lparr>prefersDark = dark,
     navigatorLanguage = Some locale,
     navigatorUserLanguage = None,
     builtinGet = (\<lambda>n k. Inr JUndefined)\<rparr>"

section \<open>Properties of the hero-image toggler\<close>

lemma click_index:
  "currentThemeIndex (click s) = (currentThemeIndex s + 1) mod 2"
  by (simp add: click_def themes_def Let_def numeral_2_eq_2 split: option.split)

lemma click_dataTheme:
  "dataTheme (click s) = Some (themeAt ((currentThemeIndex s + 1) mod 2))"
  by (simp add: click_def themes_def Let_def numeral_2_eq_2 split: option.split)

lemma clicks_index:
  "currentThemeIndex s = 0 \<Longrightarrow> currentThemeIndex (clicks k s) = k mod 2"
proof (induction k)
  case 0
  then show ?case by simp
next
  case (Suc k)
  then have "currentThemeIndex (clicks (Suc k) s) = (k mod 2 + 1) mod 2"
    by (simp add: click_index)
  then show ?case by (simp add: mod_Suc)
qed

lemma themeAt_parity:
  "themeAt ((j mod 2 + 1) mod 2) = (if odd (Suc j) then ''dark'' else ''light'')"
proof (cases "even j")
  case True
  then have "j mod 2 = 0" by presburger
  with True show ?thesis by (simp add: themeAt_def themes_def)
next
  case False
  then have "j mod 2 = 1" by presburger
  with False show ?thesis by (simp add: themeAt_def themes_def)
qed

lemma click_image:
  assumes "heroImage s \<noteq> None"
  shows "heroImage (click s) =
           Some (''assets/hero-'' @ themeAt ((currentThemeIndex s + 1) mod 2) @ ''.svg'')
       \<and> togglerUncaught (click s) = togglerUncaught s"
  using assms by (auto simp: click_def Let_def themes_def numeral_2_eq_2 split: option.split)

lemma clicks_image:
  assumes "heroImage s \<noteq> None"
  shows "heroImage (clicks k s) \<noteq> None \<and> togglerUncaught (clicks k s) = togglerUncaught s"
proof (induction k)
  case 0
  from assms show ?case by simp
next
  case (Suc k)
  then have "heroImage (clicks k s) \<noteq> None" by simp
  from click_image [OF this] Suc show ?case by simp
qed

text \<open>
  Claim C10. In the hero-image toggler, after the k-th click (k at least 1) on the toggle
  button the root \<open>data-theme\<close> attribute is \<open>dark\<close> when k is odd and \<open>light\<close> when k is
  even, so the first click gives \<open>dark\<close>. On a page that has the hero image, its source
  after the click is \<open>assets/hero-\<close>, the current \<open>data-theme\<close> value, and \<open>.svg\<close>, and
  no click raises.
\<close>

theorem toggler_parity:
  assumes "loadToggler hasButton attr img = Inr s0" and "1 \<le> k"
  shows "dataTheme (clicks k s0) = Some (if odd k then ''dark'' else ''light'')
       \<and> (img \<noteq> None \<longrightarrow>
            heroImage (clicks k s0) =
              Some (''assets/hero-'' @ (if odd k then ''dark'' else ''light'') @ ''.svg'')
          \<and> togglerUncaught (clicks k s0) = [])"
proof -
  from assms(1) have s0: "currentThemeIndex s0 = 0" "heroImage s0 = img" "togglerUncaught s0 = []"
    by (auto simp: loadToggler_def split: if_splits)
  from assms(2) obtain j where k: "k = Suc j" by (cases k) auto
  have idx: "currentThemeIndex (clicks j s0) = j mod 2"
    using s0(1) by (rule clicks_index)
  have d: "dataTheme (clicks k s0) = Some (if odd k then ''dark'' else ''light'')"
    by (simp only: k clicks.simps click_dataTheme idx themeAt_parity)
  have i: "heroImage (clicks k s0) =
              Some (''assets/hero-'' @ (if odd k then ''dark'' else ''light'') @ ''.svg'')
          \<and> togglerUncaught (clicks k s0) = []"
    if "img \<noteq> None"
  proof -
    from that s0(2) have "heroImage s0 \<noteq> None" by simp
    from clicks_image [OF this, of j] s0(3)
    have p: "heroImage (clicks j s0) \<noteq> None" and u: "togglerUncaught (clicks j s0) = []"
      by simp_all
    from click_image [OF p] u show ?thesis
      by (simp only: k clicks.simps idx themeAt_parity)
  qed
  from d i show ?thesis by blast
qed

theorem toggler_parity_witness:
  "dataTheme (clicks 3 \<lparr>currentThemeIndex = 0, dataTheme = None,
       heroImage = Some ''assets/hero-light.svg'', togglerUncaught = []\<rparr>) = Some ''dark''
 \<and> heroImage (clicks 3 \<lparr>currentThemeIndex = 0, dataTheme = None,
       heroImage = Some ''assets/hero-light.svg'', togglerUncaught = []\<rparr>)
       = Some ''assets/hero-dark.svg''
 \<and> dataTheme (clicks 2 \<lparr>currentThemeIndex = 0, dataTheme = None,
       heroImage = Some ''assets/hero-light.svg'', togglerUncaught = []\<rparr>) = Some ''light''"
proof -
  have l: "loadToggler True None (Some ''assets/hero-light.svg'')
         = Inr \<lparr>currentThemeIndex = 0, dataTheme = None,
                heroImage = Some ''assets/hero-light.svg'', togglerUncaught = []\<rparr>"
    by (simp add: loadToggler_def)
  have k3: "(1::nat) \<le> 3" and k2: "(1::nat) \<le> 2" by simp_all
  from toggler_parity [OF l k3] toggler_parity [OF l k2] show ?thesis by simp
qed

section \<open>Shared facts about the primitives\<close>

lemma classList_add_idem:
  "classList_add c (classList_add c cs) = classList_add c cs"
  by (simp add: classList_add_def)

lemma classList_add_mem:
  "x \<in> set (classList_add c cs) \<longleftrightarrow> x = c \<or> x \<in> set cs"
  by (auto simp: classList_add_def)

lemma classList_remove_mem:
  "x \<in> set (classList_remove c cs) \<longleftrightarrow> x \<noteq> c \<and> x \<in> set cs"
  by (auto simp: classList_remove_def)

lemma classList_add_distinct:
  "distinct cs \<Longrightarrow> distinct (classList_add c cs)"
  by (simp add: classList_add_def)

lemma classList_remove_distinct:
  "distinct cs \<Longrightarrow> distinct (classList_remove c cs)"
  by (simp add: classList_remove_def)

lemma class_names_differ:
  "THEME_CLASS \<noteq> TRANSITION_CLASS"
  by (simp add: THEME_CLASS_def TRANSITION_CLASS_def)

lemma storage_keys_differ:
  "THEME_STORAGE_KEY \<noteq> LANGUAGE_STORAGE_KEY"
  by (simp add: THEME_STORAGE_KEY_def LANGUAGE_STORAGE_KEY_def)

lemma fold_setProperty:
  "fold (\<lambda>(n, v). setProperty n v) xs s = s\<lparr>rootStyle := rootStyle s ++ map_of (rev xs)\<rparr>"
proof (induction xs arbitrary: s)
  case Nil
  then show ?case by simp
next
  case (Cons x xs)
  obtain n v where x: "x = (n, v)" by (cases x)
  have "fold (\<lambda>(n, v). setProperty n v) (x # xs) s
      = (setProperty n v s)\<lparr>rootStyle := rootStyle (setProperty n v s) ++ map_of (rev xs)\<rparr>"
    by (simp add: x Cons)
  also have "\<dots> = s\<lparr>rootStyle := rootStyle s ++ map_of (rev (x # xs))\<rparr>"
    by (simp add: setProperty_def x map_add_def fun_eq_iff split: option.split)
  finally show ?case .
qed

lemma updateThemeVariables_eq:
  "updateThemeVariables d s =
     s\<lparr>rootStyle := rootStyle s ++ map_of (rev (if d then darkVariables else lightVariables))\<rparr>"
  by (simp add: updateThemeVariables_def fold_setProperty)

lemma setTheme_eq:
  "setTheme d a s =
    s\<lparr>rootClasses := themeClasses d a (rootClasses s),
      rootStyle := rootStyle s ++ map_of (rev (if d then darkVariables else lightVariables)),
      localStorage := (localStorage s)(THEME_STORAGE_KEY \<mapsto> (if d then ''dark'' else ''light'')),
      dispatched := dispatched s @ [ThemeChange d (if d then ''dark'' else ''light'')],
      timers := (if a then timers s @ [(300, RemoveTransitionClass)] else timers s)\<rparr>"
  by (simp add: setTheme_def Let_def updateThemeVariables_eq setItem_def themeClasses_def
      dispatchThemeChangeEvent_def setTimeout_def)

lemma setLanguage_eq:
  "setLanguage l a s =
    (let code = (if l \<in> set SUPPORTED_LANGUAGES then l else ''en'')
     in s\<lparr>consoleWarnings :=
            (if l \<in> set SUPPORTED_LANGUAGES then consoleWarnings s
             else consoleWarnings s @
               [''Language '' @ [CHR 0x22] @ l @ [CHR 0x22] @
                '' not supported. Defaulting to English.'']),
          rootStyle :=
            (if a then (rootStyle s)(''opacity'' \<mapsto> ''0.7'',
                         ''transition'' \<mapsto> ''opacity 0.3s ease-in-out'')
             else rootStyle s),
          rootLang := Some code,
          localStorage := (localStorage s)(LANGUAGE_STORAGE_KEY \<mapsto> code),
          timers := timers s @ [(150, SwapTranslations code a)]\<rparr>)"
  by (simp add: setLanguage_def Let_def setItem_def setTimeout_def)

lemma themeClasses_theme:
  "THEME_CLASS \<in> set (themeClasses d a cs) \<longleftrightarrow> d"
  by (auto simp: themeClasses_def Let_def classList_add_mem classList_remove_mem)

lemma themeClasses_transition:
  "TRANSITION_CLASS \<in> set (themeClasses d a cs) \<longleftrightarrow> a \<or> TRANSITION_CLASS \<in> set cs"
  using class_names_differ
  by (auto simp: themeClasses_def Let_def classList_add_mem classList_remove_mem)

lemma themeClasses_distinct:
  "distinct cs \<Longrightarrow> distinct (themeClasses d a cs)"
  by (simp add: themeClasses_def Let_def classList_add_distinct classList_remove_distinct)

lemma themeClasses_idem:
  "themeClasses d a (themeClasses d a cs) = themeClasses d a cs"
  by (auto simp: themeClasses_def Let_def classList_add_def classList_remove_def)

lemma count_list_distinct:
  "distinct xs \<Longrightarrow> x \<in> set xs \<Longrightarrow> count_list xs x = 1"
  by (induction xs) auto

lemma map_add_twice: "(m ++ f) ++ f = m ++ f"
  by (simp add: map_add_def fun_eq_iff split: option.split)

lemma darkVariables_set:
  "(n, v) \<in> set darkVariables \<Longrightarrow> (m ++ map_of (rev darkVariables)) n = Some v"
  by (auto simp: darkVariables_def map_add_def)

lemma initializeTheme_eq:
  "initializeTheme b s =
    (setTheme (case localStorage s THEME_STORAGE_KEY of
                 None \<Rightarrow> prefersDark b
               | Some v \<Rightarrow> if v \<noteq> [] then v = ''dark'' else prefersDark b) False s)
      \<lparr>schemeListeners := Suc (schemeListeners s)\<rparr>"
  by (simp add: initializeTheme_def Let_def setTheme_eq)

lemma updateThemeToggleButton_frame:
  "rootClasses (updateThemeToggleButton s) = rootClasses s"
  "rootStyle (updateThemeToggleButton s) = rootStyle s"
  "rootLang (updateThemeToggleButton s) = rootLang s"
  "localStorage (updateThemeToggleButton s) = localStorage s"
  "dispatched (updateThemeToggleButton s) = dispatched s"
  "timers (updateThemeToggleButton s) = timers s"
  "uncaught (updateThemeToggleButton s) = uncaught s"
  "schemeListeners (updateThemeToggleButton s) = schemeListeners s"
  "languageSelect (updateThemeToggleButton s) = languageSelect s"
  by (simp_all add: updateThemeToggleButton_def Let_def split: option.split)

lemma initializeLanguage_frame:
  "rootClasses (snd (initializeLanguage b s)) = rootClasses s"
  "dispatched (snd (initializeLanguage b s)) = dispatched s"
  "uncaught (snd (initializeLanguage b s)) = uncaught s"
  "schemeListeners (snd (initializeLanguage b s)) = schemeListeners s"
  "localStorage (snd (initializeLanguage b s)) THEME_STORAGE_KEY = localStorage s THEME_STORAGE_KEY"
  using storage_keys_differ
  by (auto simp: initializeLanguage_def Let_def setLanguage_eq split: option.split sum.split)

lemma setupEventListeners_frame:
  "rootClasses (snd (setupEventListeners b s)) = rootClasses s"
  "dispatched (snd (setupEventListeners b s)) = dispatched s"
  "uncaught (snd (setupEventListeners b s)) = uncaught s"
  "schemeListeners (snd (setupEventListeners b s)) = schemeListeners s"
  "localStorage (snd (setupEventListeners b s)) = localStorage s"
  "rootLang (snd (setupEventListeners b s)) = rootLang s"
  "timers (snd (setupEventListeners b s)) = timers s"
  by (auto simp: setupEventListeners_def Let_def updateThemeToggleButton_frame
      split: option.split sum.split)

lemma ThemeManager_frame:
  "rootClasses (snd (ThemeManager b s)) = rootClasses (initializeTheme b s)"
  "dispatched (snd (ThemeManager b s)) = dispatched (initializeTheme b s)"
  "schemeListeners (snd (ThemeManager b s)) = schemeListeners (initializeTheme b s)"
  "localStorage (snd (ThemeManager b s)) THEME_STORAGE_KEY
     = localStorage (initializeTheme b s) THEME_STORAGE_KEY"
proof -
  let ?s1 = "initializeTheme b s"
  obtain e2 s2 where l: "initializeLanguage b ?s1 = (e2, s2)" by (cases "initializeLanguage b ?s1")
  obtain e3 s3 where u: "setupEventListeners b s2 = (e3, s3)" by (cases "setupEventListeners b s2")
  from l have s2: "s2 = snd (initializeLanguage b ?s1)" by simp
  from u have s3: "s3 = snd (setupEventListeners b s2)" by simp
  have r: "snd (ThemeManager b s) = s2 \<or> snd (ThemeManager b s) = s3
         \<or> snd (ThemeManager b s) = applyAnimationStyles s3"
    by (simp add: ThemeManager_def Let_def l u split: option.split)
  have a: "rootClasses (applyAnimationStyles s3) = rootClasses s3"
          "dispatched (applyAnimationStyles s3) = dispatched s3"
          "schemeListeners (applyAnimationStyles s3) = schemeListeners s3"
          "localStorage (applyAnimationStyles s3) = localStorage s3"
    by (simp_all add: applyAnimationStyles_def)
  show "rootClasses (snd (ThemeManager b s)) = rootClasses ?s1"
    using r a by (auto simp: s2 s3 initializeLanguage_frame setupEventListeners_frame)
  show "dispatched (snd (ThemeManager b s)) = dispatched ?s1"
    using r a by (auto simp: s2 s3 initializeLanguage_frame setupEventListeners_frame)
  show "schemeListeners (snd (ThemeManager b s)) = schemeListeners ?s1"
    using r a by (auto simp: s2 s3 initializeLanguage_frame setupEventListeners_frame)
  show "localStorage (snd (ThemeManager b s)) THEME_STORAGE_KEY = localStorage ?s1 THEME_STORAGE_KEY"
    using r a by (auto simp: s2 s3 initializeLanguage_frame setupEventListeners_frame)
qed

lemma startup_frame:
  "rootClasses (startup b s) = rootClasses (initializeTheme b s)"
  "dispatched (startup b s) = dispatched (initializeTheme b s)"
  "schemeListeners (startup b s) = schemeListeners (initializeTheme b s)"
  "localStorage (startup b s) THEME_STORAGE_KEY
     = localStorage (initializeTheme b s) THEME_STORAGE_KEY"
  using ThemeManager_frame [of b s]
  by (auto simp: startup_def split: prod.split option.split)

lemma setTheme_changes: "setTheme d a s \<noteq> s"
proof
  assume "setTheme d a s = s"
  then have "dispatched (setTheme d a s) = dispatched s" by simp
  then show False by (simp add: setTheme_eq)
qed

lemma getCurrentTheme_setTheme:
  "getCurrentTheme (setTheme d a s) = (if d then ''dark'' else ''light'')"
  by (simp add: getCurrentTheme_def classList_contains_def setTheme_eq themeClasses_theme)

lemma getCurrentTheme_initializeTheme:
  "getCurrentTheme (initializeTheme b s) =
    (case localStorage s THEME_STORAGE_KEY of
       None \<Rightarrow> if prefersDark b then ''dark'' else ''light''
     | Some v \<Rightarrow> if v \<noteq> [] then (if v = ''dark'' then ''dark'' else ''light'')
                 else if prefersDark b then ''dark'' else ''light'')"
  by (simp add: initializeTheme_eq getCurrentTheme_def classList_contains_def setTheme_eq
      themeClasses_theme split: option.split)

lemma detectBrowserLanguage_Some:
  "browserLang b = Some l \<Longrightarrow>
    detectBrowserLanguage b =
      Inr (if toLowerCase (primarySubtag l) \<in> set SUPPORTED_LANGUAGES
           then toLowerCase (primarySubtag l) else ''en'')"
  by (simp add: detectBrowserLanguage_def Let_def)


lemma rootLang_startup:
  "rootLang (startup b s) = rootLang (snd (initializeLanguage b (initializeTheme b s)))"
proof -
  let ?s1 = "initializeTheme b s"
  obtain e2 s2 where l: "initializeLanguage b ?s1 = (e2, s2)" by (cases "initializeLanguage b ?s1")
  obtain e3 s3 where u: "setupEventListeners b s2 = (e3, s3)" by (cases "setupEventListeners b s2")
  from u have s3: "rootLang s3 = rootLang s2"
    using setupEventListeners_frame(6) [of b s2] by simp
  show ?thesis
    by (simp add: startup_def ThemeManager_def Let_def l u s3 applyAnimationStyles_def
        split: option.split)
qed

lemma getCurrentTheme_startup:
  "getCurrentTheme (startup b s) = getCurrentTheme (initializeTheme b s)"
  by (simp add: getCurrentTheme_def startup_frame)

lemma table_values_nonempty:
  assumes "map_of translationsTable l = Some t" and "map_of t k = Some v"
  shows "v \<noteq> []"
proof -
  have all: "\<forall>(l, t) \<in> set translationsTable. \<forall>(k, v) \<in> set t. v \<noteq> []"
    by (simp add: translationsTable_def)
  from assms(1) have "(l, t) \<in> set translationsTable" by (rule map_of_SomeD)
  moreover from assms(2) have "(k, v) \<in> set t" by (rule map_of_SomeD)
  ultimately show ?thesis using all by blast
qed

lemma tableEntry_nonempty: "tableEntry l k = Some v \<Longrightarrow> v \<noteq> []"
  by (auto simp: tableEntry_def table_values_nonempty split: option.splits)

lemma table_has_en: "\<exists>t. map_of translationsTable ''en'' = Some t"
  by (simp add: translationsTable_def)

lemma getMember_own:
  "k \<notin> set ObjectPrototype \<Longrightarrow>
    getMember obj k = (case map_of obj k of Some v \<Rightarrow> Own v | None \<Rightarrow> Missing)"
  by (simp add: getMember_def split: option.split)

lemma resetToSystemPreferences_eq:
  "resetToSystemPreferences s =
    s\<lparr>localStorage := (localStorage s)(THEME_STORAGE_KEY := None, LANGUAGE_STORAGE_KEY := None),
      reloads := Suc (reloads s)\<rparr>"
  by (simp add: resetToSystemPreferences_def removeItem_def Let_def)

lemma setupEventListeners_ok:
  "truthyItem (localStorage s LANGUAGE_STORAGE_KEY) \<Longrightarrow> fst (setupEventListeners b s) = None"
  by (auto simp: setupEventListeners_def Let_def truthyItem_def updateThemeToggleButton_frame
      split: option.splits sum.splits)

lemma ThemeManager_ok:
  assumes "initializeLanguage b (initializeTheme b s) = (None, setLanguage l False (initializeTheme b s))"
  shows "fst (ThemeManager b s) = None"
    and "localStorage (snd (ThemeManager b s)) =
          (localStorage s)(THEME_STORAGE_KEY \<mapsto> (if getCurrentTheme (initializeTheme b s) = ''dark''
                                                  then ''dark'' else ''light''),
             LANGUAGE_STORAGE_KEY \<mapsto> (if l \<in> set SUPPORTED_LANGUAGES then l else ''en''))"
proof -
  let ?s1 = "initializeTheme b s"
  let ?s2 = "setLanguage l False ?s1"
  have t: "truthyItem (localStorage ?s2 LANGUAGE_STORAGE_KEY)"
    by (auto simp: setLanguage_eq Let_def truthyItem_def SUPPORTED_LANGUAGES_def)
  obtain e3 s3 where u: "setupEventListeners b ?s2 = (e3, s3)"
    by (cases "setupEventListeners b ?s2")
  from setupEventListeners_ok [OF t, of b] u have e3: "e3 = None" by simp
  from u have s3: "localStorage s3 = localStorage ?s2"
    using setupEventListeners_frame(5) [of b ?s2] by simp
  show "fst (ThemeManager b s) = None"
    by (simp add: ThemeManager_def Let_def assms u e3)
  have "localStorage (snd (ThemeManager b s)) = localStorage ?s2"
    by (simp add: ThemeManager_def Let_def assms u e3 s3 applyAnimationStyles_def)
  also have "\<dots> = (localStorage s)(THEME_STORAGE_KEY \<mapsto> (if getCurrentTheme ?s1 = ''dark''
                                                  then ''dark'' else ''light''),
             LANGUAGE_STORAGE_KEY \<mapsto> (if l \<in> set SUPPORTED_LANGUAGES then l else ''en''))"
    by (simp add: setLanguage_eq Let_def initializeTheme_eq setTheme_eq getCurrentTheme_def
        classList_contains_def themeClasses_theme)
  finally show "localStorage (snd (ThemeManager b s)) =
          (localStorage s)(THEME_STORAGE_KEY \<mapsto> (if getCurrentTheme (initializeTheme b s) = ''dark''
                                                  then ''dark'' else ''light''),
             LANGUAGE_STORAGE_KEY \<mapsto> (if l \<in> set SUPPORTED_LANGUAGES then l else ''en''))" .
qed

lemma schemeListeners_startup:
  "schemeListeners (startup b p) = Suc (schemeListeners p)"
  by (simp add: startup_frame initializeTheme_eq setTheme_eq)

lemma schemeChanged_one:
  "schemeListeners s = Suc 0 \<Longrightarrow> schemeChanged m s = schemeChangeListener m s"
  by (simp add: schemeChanged_def)

section \<open>Precedence on initialization\<close>



section \<open>Looking up a translation\<close>

text \<open>
  A key that names a property of \<open>Object.prototype\<close> is found in every table of the object
  literal, although no table lists it: the lookup returns the inherited built-in, not a
  string.
\<close>

lemma getTranslation_inherited_key:
  "getTranslation host ''en'' ''toString'' = Inr (JBuiltin ''toString'')"
  by (simp add: getTranslation_def getMember_def translationsTable_def ObjectPrototype_def)

text \<open>
  Claim C2 says that the lookup returns the entry of the language, else the entry of
  \<open>en\<close>, else the key itself, and that the string it returns is never empty. A tagged
  element may carry the empty key (\<open>data-i18n\<close> with no value); no table has an entry for
  it, so the third tier returns the key, which is the empty string.
\<close>

theorem getTranslation_empty_key_counterexample:
  "getTranslation (builtinGet (sampleBrowser False ''en-US'')) ''en'' [] = Inr (JString [])
 \<and> tableEntry ''en'' [] = None"
  by (simp add: getTranslation_def getMember_def tableEntry_def translationsTable_def
      ObjectPrototype_def)

text \<open>
  Claim C2, as amended. For every language code and every key that do not name a property
  inherited from \<open>Object.prototype\<close>, \<open>getTranslation\<close> raises nothing and returns a
  string: the entry of the table for the language and the key when there is one, otherwise
  the entry of \<open>en\<close> for the key when there is one, otherwise the key itself. The string is
  not empty unless the key is.
\<close>

theorem getTranslation_fallback:
  assumes "langCode \<notin> set ObjectPrototype" and "key \<notin> set ObjectPrototype"
  shows "getTranslation host langCode key =
          Inr (JString (case tableEntry langCode key of
                          Some v \<Rightarrow> v
                        | None \<Rightarrow> (case tableEntry ''en'' key of Some v \<Rightarrow> v | None \<Rightarrow> key)))
       \<and> (key \<noteq> [] \<longrightarrow>
            (case tableEntry langCode key of
               Some v \<Rightarrow> v
             | None \<Rightarrow> (case tableEntry ''en'' key of Some v \<Rightarrow> v | None \<Rightarrow> key)) \<noteq> [])"
proof -
  obtain en where en: "map_of translationsTable ''en'' = Some en"
    using table_has_en by blast
  have e: "''en'' \<notin> set ObjectPrototype"
    by (simp add: ObjectPrototype_def)
  have second: "(case getMember translationsTable ''en'' of
                     Own t \<Rightarrow> Inr (memberValue (getMember t key))
                   | Inherited n \<Rightarrow> host n key
                   | Missing \<Rightarrow> Inl TypeError)
              = Inr (case tableEntry ''en'' key of Some v \<Rightarrow> JString v | None \<Rightarrow> JUndefined)"
    using assms(2) by (simp add: getMember_own e en tableEntry_def split: option.split)
  have first: "(case getMember translationsTable langCode of
                    Own t \<Rightarrow> Inr (memberValue (getMember t key))
                  | Inherited n \<Rightarrow> host n key
                  | Missing \<Rightarrow> Inr JUndefined)
              = Inr (case tableEntry langCode key of Some v \<Rightarrow> JString v | None \<Rightarrow> JUndefined)"
    using assms by (simp add: getMember_own tableEntry_def split: option.split)
  have val: "getTranslation host langCode key =
          Inr (JString (case tableEntry langCode key of
                          Some v \<Rightarrow> v
                        | None \<Rightarrow> (case tableEntry ''en'' key of Some v \<Rightarrow> v | None \<Rightarrow> key)))"
    unfolding getTranslation_def Let_def first second
    by (auto simp: tableEntry_nonempty split: option.split)
  have ne: "(case tableEntry langCode key of
               Some v \<Rightarrow> v
             | None \<Rightarrow> (case tableEntry ''en'' key of Some v \<Rightarrow> v | None \<Rightarrow> key)) \<noteq> []"
    if "key \<noteq> []"
    using that by (auto simp: tableEntry_nonempty split: option.split)
  from val ne show ?thesis by blast
qed

theorem getTranslation_fallback_witness:
  "getTranslation (builtinGet (sampleBrowser False ''en-US'')) ''fr'' ''page-title''
     = Inr (JString ''Portefeuille'')
 \<and> getTranslation (builtinGet (sampleBrowser False ''en-US'')) ''xx'' ''theme-toggle''
     = Inr (JString ''Toggle Theme'')
 \<and> getTranslation (builtinGet (sampleBrowser False ''en-US'')) ''de'' ''contact''
     = Inr (JString ''contact'')"
proof -
  let ?h = "builtinGet (sampleBrowser False ''en-US'')"
  have n: "''fr'' \<notin> set ObjectPrototype" "''xx'' \<notin> set ObjectPrototype"
          "''de'' \<notin> set ObjectPrototype" "''page-title'' \<notin> set ObjectPrototype"
          "''theme-toggle'' \<notin> set ObjectPrototype" "''contact'' \<notin> set ObjectPrototype"
    by (simp_all add: ObjectPrototype_def)
  have t: "tableEntry ''fr'' ''page-title'' = Some ''Portefeuille''"
          "tableEntry ''xx'' ''theme-toggle'' = None"
          "tableEntry ''en'' ''theme-toggle'' = Some ''Toggle Theme''"
          "tableEntry ''de'' ''contact'' = None"
          "tableEntry ''en'' ''contact'' = None"
    by (simp_all add: tableEntry_def translationsTable_def)
  from getTranslation_fallback [OF n(1) n(4), of ?h]
       getTranslation_fallback [OF n(2) n(5), of ?h]
       getTranslation_fallback [OF n(3) n(6), of ?h] t
  show ?thesis by simp
qed

section \<open>Unsupported language codes\<close>

text \<open>
  Claim C3. For every language code \<open>L\<close> outside the supported set and either value of
  \<open>animate\<close>, \<open>setLanguage L animate\<close> applies and persists the default code \<open>en\<close> and not
  \<open>L\<close>: the \<open>lang\<close> attribute of the document and the value written under the language
  storage key are \<open>en\<close>. No error is raised: \<open>setLanguage\<close> has no failing branch and
  leaves the log of uncaught errors as it was; the only trace is the console warning.
  The deferred text swap is scheduled for \<open>en\<close> as well.
\<close>

theorem setLanguage_unsupported:
  assumes "L \<notin> set SUPPORTED_LANGUAGES"
  shows "rootLang (setLanguage L animate s) = Some ''en''
       \<and> localStorage (setLanguage L animate s) LANGUAGE_STORAGE_KEY = Some ''en''
       \<and> L \<noteq> ''en''
       \<and> uncaught (setLanguage L animate s) = uncaught s
       \<and> timers (setLanguage L animate s) = timers s @ [(150, SwapTranslations ''en'' animate)]
       \<and> consoleWarnings (setLanguage L animate s) =
           consoleWarnings s @ [''Language '' @ [CHR 0x22] @ L @ [CHR 0x22] @
                                '' not supported. Defaulting to English.'']"
proof -
  from assms have "L \<noteq> ''en''"
    by (auto simp: SUPPORTED_LANGUAGES_def)
  with assms show ?thesis
    by (simp add: setLanguage_eq Let_def)
qed

theorem setLanguage_unsupported_witness:
  "rootLang (setLanguage ''xx'' True samplePage) = Some ''en''
   \<and> localStorage (setLanguage ''xx'' True samplePage) LANGUAGE_STORAGE_KEY = Some ''en''
   \<and> rootLang (setLanguage ''tlh'' False samplePage) = Some ''en''
   \<and> localStorage (setLanguage ''tlh'' False samplePage) LANGUAGE_STORAGE_KEY = Some ''en''"
proof -
  have a: "''xx'' \<notin> set SUPPORTED_LANGUAGES" by (simp add: SUPPORTED_LANGUAGES_def)
  have b: "''tlh'' \<notin> set SUPPORTED_LANGUAGES" by (simp add: SUPPORTED_LANGUAGES_def)
  from setLanguage_unsupported [OF a, of True samplePage]
       setLanguage_unsupported [OF b, of False samplePage]
  show ?thesis by simp
qed

section \<open>Applying the dark theme twice\<close>

text \<open>
  Claim C4. \<open>setTheme True False\<close> is idempotent on what the claim observes: applied twice
  in succession it leaves the same class tokens on the root element, the same inline
  custom properties and the same store as applied once. The store holds \<open>dark\<close> under the
  theme key, each of the 7 custom properties has its dark value, and a root element whose
  class tokens are distinct keeps them distinct, with the dark-mode class exactly once.
\<close>

theorem setTheme_dark_idempotent:
  "rootClasses (setTheme True False (setTheme True False s)) = rootClasses (setTheme True False s)
 \<and> rootStyle (setTheme True False (setTheme True False s)) = rootStyle (setTheme True False s)
 \<and> localStorage (setTheme True False (setTheme True False s)) = localStorage (setTheme True False s)
 \<and> localStorage (setTheme True False s) THEME_STORAGE_KEY = Some ''dark''
 \<and> (\<forall>(n, v) \<in> set darkVariables. rootStyle (setTheme True False s) n = Some v)
 \<and> length darkVariables = 7 \<and> distinct (map fst darkVariables)
 \<and> (distinct (rootClasses s) \<longrightarrow>
       distinct (rootClasses (setTheme True False (setTheme True False s)))
     \<and> count_list (rootClasses (setTheme True False (setTheme True False s))) THEME_CLASS = 1)"
proof -
  let ?once = "setTheme True False s"
  let ?twice = "setTheme True False ?once"
  have c: "rootClasses ?twice = rootClasses ?once"
    by (simp add: setTheme_eq themeClasses_idem)
  have st: "rootStyle ?twice = rootStyle ?once"
    by (simp add: setTheme_eq map_add_twice)
  have ls: "localStorage ?twice = localStorage ?once"
    by (simp add: setTheme_eq)
  have k: "localStorage ?once THEME_STORAGE_KEY = Some ''dark''"
    by (simp add: setTheme_eq)
  have v: "\<forall>(n, v) \<in> set darkVariables. rootStyle ?once n = Some v"
    by (auto simp: setTheme_eq darkVariables_set)
  have n: "length darkVariables = 7 \<and> distinct (map fst darkVariables)"
    by (simp add: darkVariables_def)
  have d: "distinct (rootClasses ?twice) \<and> count_list (rootClasses ?twice) THEME_CLASS = 1"
    if "distinct (rootClasses s)"
  proof -
    from that have dd: "distinct (rootClasses ?once)"
      by (simp add: setTheme_eq themeClasses_distinct)
    have "THEME_CLASS \<in> set (rootClasses ?once)"
      by (simp add: setTheme_eq themeClasses_theme)
    with dd have "count_list (rootClasses ?once) THEME_CLASS = 1"
      by (simp add: count_list_distinct)
    with dd c show ?thesis by simp
  qed
  from c st ls k v n d show ?thesis by blast
qed

theorem setTheme_dark_idempotent_witness:
  "rootClasses (setTheme True False (setTheme True False samplePage)) = [''no-js'', ''dark-theme'']
 \<and> rootClasses (setTheme True False samplePage) = [''no-js'', ''dark-theme'']
 \<and> rootStyle (setTheme True False (setTheme True False samplePage)) ''--bg-primary'' = Some ''#1a1a1a''
 \<and> rootStyle (setTheme True False (setTheme True False samplePage)) ''--accent-color'' = Some ''#6366f1''
 \<and> count_list (rootClasses (setTheme True False (setTheme True False samplePage))) THEME_CLASS = 1"
proof -
  have d: "distinct (rootClasses samplePage)" by (simp add: samplePage_def)
  have o: "rootClasses (setTheme True False samplePage) = [''no-js'', ''dark-theme'']"
    by (simp add: setTheme_eq themeClasses_def classList_add_def samplePage_def THEME_CLASS_def)
  have m1: "(''--bg-primary'', ''#1a1a1a'') \<in> set darkVariables"
    by (simp add: darkVariables_def)
  have m2: "(''--accent-color'', ''#6366f1'') \<in> set darkVariables"
    by (simp add: darkVariables_def)
  from setTheme_dark_idempotent [of samplePage] d o m1 m2 show ?thesis
    by (auto simp: THEME_CLASS_def)
qed

section \<open>First load under a dark system preference\<close>

text \<open>
  Claim C5. With no theme stored and a system that reports dark, the initial load applies
  the dark theme (the dark-mode class is on the root), stores \<open>dark\<close> under the theme key
  and dispatches the theme-change event with \<open>isDark = true\<close> and \<open>theme = dark\<close>. The load
  is not animated: the class tokens of the root are those it had plus the dark-mode class,
  so the transition class is there only if the markup had it, and no callback is
  scheduled to remove it. This holds for \<open>initializeTheme\<close> and for the whole start of the
  coordinator.
\<close>

theorem initial_load_dark:
  assumes "localStorage s THEME_STORAGE_KEY = None" and "prefersDark b"
  shows "classList_contains THEME_CLASS (rootClasses (initializeTheme b s))
       \<and> localStorage (initializeTheme b s) THEME_STORAGE_KEY = Some ''dark''
       \<and> dispatched (initializeTheme b s) = dispatched s @ [ThemeChange True ''dark'']
       \<and> rootClasses (initializeTheme b s) = classList_add THEME_CLASS (rootClasses s)
       \<and> (TRANSITION_CLASS \<in> set (rootClasses (initializeTheme b s))
            \<longleftrightarrow> TRANSITION_CLASS \<in> set (rootClasses s))
       \<and> timers (initializeTheme b s) = timers s
       \<and> rootClasses (startup b s) = classList_add THEME_CLASS (rootClasses s)
       \<and> localStorage (startup b s) THEME_STORAGE_KEY = Some ''dark''
       \<and> dispatched (startup b s) = dispatched s @ [ThemeChange True ''dark'']"
proof -
  have i: "initializeTheme b s = (setTheme True False s)\<lparr>schemeListeners := Suc (schemeListeners s)\<rparr>"
    using assms by (simp add: initializeTheme_eq)
  have c: "rootClasses (initializeTheme b s) = classList_add THEME_CLASS (rootClasses s)"
    by (simp add: i setTheme_eq themeClasses_def)
  have t: "TRANSITION_CLASS \<in> set (rootClasses (initializeTheme b s))
            \<longleftrightarrow> TRANSITION_CLASS \<in> set (rootClasses s)"
    using class_names_differ by (auto simp: c classList_add_mem)
  have m: "classList_contains THEME_CLASS (rootClasses (initializeTheme b s))"
    by (simp add: c classList_contains_def classList_add_mem)
  have l: "localStorage (initializeTheme b s) THEME_STORAGE_KEY = Some ''dark''"
    by (simp add: i setTheme_eq)
  have d: "dispatched (initializeTheme b s) = dispatched s @ [ThemeChange True ''dark'']"
    by (simp add: i setTheme_eq)
  have q: "timers (initializeTheme b s) = timers s"
    by (simp add: i setTheme_eq)
  from c t m l d q show ?thesis
    by (simp add: startup_frame)
qed

theorem initial_load_dark_witness:
  "rootClasses (startup (sampleBrowser True ''en-US'') samplePage) = [''no-js'', ''dark-theme'']
 \<and> localStorage (startup (sampleBrowser True ''en-US'') samplePage) THEME_STORAGE_KEY = Some ''dark''
 \<and> dispatched (startup (sampleBrowser True ''en-US'') samplePage) = [ThemeChange True ''dark'']"
proof -
  have a: "localStorage samplePage THEME_STORAGE_KEY = None" by (simp add: samplePage_def)
  have b: "prefersDark (sampleBrowser True ''en-US'')" by (simp add: sampleBrowser_def)
  have c: "classList_add THEME_CLASS (rootClasses samplePage) = [''no-js'', ''dark-theme'']"
    by (simp add: samplePage_def classList_add_def THEME_CLASS_def)
  have d: "dispatched samplePage = []" by (simp add: samplePage_def)
  from initial_load_dark [OF a b] c d show ?thesis by simp
qed

section \<open>Toggling the theme\<close>

text \<open>
  Claim C6. \<open>toggleTheme\<close> reads the applied theme from the document (the dark-mode class
  on the root element) and not from the store: whatever the store holds, the class tokens
  after the call are the same, and the dark-mode class is on the root afterwards exactly
  when it was not before. The inverse is applied with animation (the transition class is
  set and its removal is scheduled after 300 ms) and persisted. Then the toggle control, when
  the page has one, shows the new state: aria-label \<open>Switch to light theme\<close> and the sun
  when the page is now dark, \<open>Switch to dark theme\<close> and the moon when it is now light.
\<close>

theorem toggleTheme_inverts:
  "(classList_contains THEME_CLASS (rootClasses (toggleTheme s))
      \<longleftrightarrow> \<not> classList_contains THEME_CLASS (rootClasses s))
 \<and> rootClasses (toggleTheme (s\<lparr>localStorage := m\<rparr>)) = rootClasses (toggleTheme s)
 \<and> toggleTheme s
      = updateThemeToggleButton (setTheme (\<not> classList_contains THEME_CLASS (rootClasses s)) True s)
 \<and> classList_contains TRANSITION_CLASS (rootClasses (toggleTheme s))
 \<and> timers (toggleTheme s) = timers s @ [(300, RemoveTransitionClass)]
 \<and> localStorage (toggleTheme s) THEME_STORAGE_KEY
      = Some (if classList_contains THEME_CLASS (rootClasses s) then ''light'' else ''dark'')
 \<and> (\<forall>btn. themeToggle s = Some btn \<longrightarrow>
       themeToggle (toggleTheme s) =
         Some (if classList_contains THEME_CLASS (rootClasses (toggleTheme s))
               then btn\<lparr>ariaLabel := Some ''Switch to light theme'', innerHTML := SUN\<rparr>
               else btn\<lparr>ariaLabel := Some ''Switch to dark theme'', innerHTML := MOON\<rparr>))
 \<and> (themeToggle s = None \<longrightarrow> themeToggle (toggleTheme s) = None)"
proof -
  let ?d = "classList_contains THEME_CLASS (rootClasses s)"
  have def: "toggleTheme s = updateThemeToggleButton (setTheme (\<not> ?d) True s)"
    by (simp add: toggleTheme_def Let_def)
  have cls: "rootClasses (toggleTheme s) = themeClasses (\<not> ?d) True (rootClasses s)"
    by (simp add: def updateThemeToggleButton_frame setTheme_eq)
  have inv: "classList_contains THEME_CLASS (rootClasses (toggleTheme s)) \<longleftrightarrow> \<not> ?d"
    by (simp add: cls classList_contains_def themeClasses_theme)
  have sto: "rootClasses (toggleTheme (s\<lparr>localStorage := m\<rparr>)) = rootClasses (toggleTheme s)"
    by (simp add: toggleTheme_def Let_def updateThemeToggleButton_frame setTheme_eq)
  have tr: "classList_contains TRANSITION_CLASS (rootClasses (toggleTheme s))"
    by (simp add: cls classList_contains_def themeClasses_transition)
  have tm: "timers (toggleTheme s) = timers s @ [(300, RemoveTransitionClass)]"
    by (simp add: def updateThemeToggleButton_frame setTheme_eq)
  have ls: "localStorage (toggleTheme s) THEME_STORAGE_KEY = Some (if ?d then ''light'' else ''dark'')"
    by (simp add: def updateThemeToggleButton_frame setTheme_eq)
  have bt: "themeToggle (toggleTheme s) =
         Some (if classList_contains THEME_CLASS (rootClasses (toggleTheme s))
               then btn\<lparr>ariaLabel := Some ''Switch to light theme'', innerHTML := SUN\<rparr>
               else btn\<lparr>ariaLabel := Some ''Switch to dark theme'', innerHTML := MOON\<rparr>)"
    if "themeToggle s = Some btn" for btn
    using that
    by (simp add: toggleTheme_def Let_def updateThemeToggleButton_def setTheme_eq
        classList_contains_def themeClasses_theme)
  have nb: "themeToggle (toggleTheme s) = None" if "themeToggle s = None"
    using that by (simp add: toggleTheme_def Let_def updateThemeToggleButton_def setTheme_eq)
  from def inv sto tr tm ls bt nb show ?thesis by blast
qed

theorem toggleTheme_inverts_witness:
  "themeToggle (toggleTheme samplePage)
     = Some \<lparr>ariaLabel = Some ''Switch to light theme'', innerHTML = SUN\<rparr>
 \<and> themeToggle (toggleTheme (toggleTheme samplePage))
     = Some \<lparr>ariaLabel = Some ''Switch to dark theme'', innerHTML = MOON\<rparr>
 \<and> classList_contains THEME_CLASS (rootClasses (toggleTheme samplePage))
 \<and> \<not> classList_contains THEME_CLASS (rootClasses (toggleTheme (toggleTheme samplePage)))"
proof -
  have a: "themeToggle samplePage = Some \<lparr>ariaLabel = None, innerHTML = []\<rparr>"
    by (simp add: samplePage_def)
  have n: "\<not> classList_contains THEME_CLASS (rootClasses samplePage)"
    by (simp add: samplePage_def classList_contains_def THEME_CLASS_def)
  note t1 = toggleTheme_inverts [of samplePage "localStorage samplePage"]
  from t1 [THEN conjunct1] n
  have 1: "classList_contains THEME_CLASS (rootClasses (toggleTheme samplePage))"
    by simp
  from t1 have "\<forall>btn. themeToggle samplePage = Some btn \<longrightarrow>
       themeToggle (toggleTheme samplePage) =
         Some (if classList_contains THEME_CLASS (rootClasses (toggleTheme samplePage))
               then btn\<lparr>ariaLabel := Some ''Switch to light theme'', innerHTML := SUN\<rparr>
               else btn\<lparr>ariaLabel := Some ''Switch to dark theme'', innerHTML := MOON\<rparr>)"
    by blast
  with a 1
  have 2: "themeToggle (toggleTheme samplePage)
            = Some \<lparr>ariaLabel = Some ''Switch to light theme'', innerHTML = SUN\<rparr>"
    by simp
  note t2 = toggleTheme_inverts [of "toggleTheme samplePage" "localStorage samplePage"]
  from t2 [THEN conjunct1] 1
  have 3: "\<not> classList_contains THEME_CLASS (rootClasses (toggleTheme (toggleTheme samplePage)))"
    by simp
  from t2 have "\<forall>btn. themeToggle (toggleTheme samplePage) = Some btn \<longrightarrow>
       themeToggle (toggleTheme (toggleTheme samplePage)) =
         Some (if classList_contains THEME_CLASS (rootClasses (toggleTheme (toggleTheme samplePage)))
               then btn\<lparr>ariaLabel := Some ''Switch to light theme'', innerHTML := SUN\<rparr>
               else btn\<lparr>ariaLabel := Some ''Switch to dark theme'', innerHTML := MOON\<rparr>)"
    by blast
  with 2 3
  have 4: "themeToggle (toggleTheme (toggleTheme samplePage))
            = Some \<lparr>ariaLabel = Some ''Switch to dark theme'', innerHTML = MOON\<rparr>"
    by simp
  from 1 2 3 4 show ?thesis by simp
qed

section \<open>The listener for system theme changes\<close>

text \<open>
  Claim C7. The coordinator registers one listener on the media query when it starts. On
  a page with that listener, and a theme key that holds what the interface allows
  (nothing, \<open>dark\<close> or \<open>light\<close>), a change of the system preference applies the reported
  theme again, with animation, if and only if no value is stored under the theme key at
  that moment: then the page gets the reported theme, the transition class and its
  removal after 300 ms, and the theme is persisted. If a value is stored, the page stays
  exactly as it is. In particular, on a page whose theme key was removed from outside
  after the start, the change of the system preference is applied.
\<close>

theorem schemeChanged_guard:
  assumes "localStorage s THEME_STORAGE_KEY = None
         \<or> localStorage s THEME_STORAGE_KEY = Some ''dark''
         \<or> localStorage s THEME_STORAGE_KEY = Some ''light''"
      and "schemeListeners s = Suc 0"
  shows "(schemeChanged m s = setTheme m True s \<longleftrightarrow> localStorage s THEME_STORAGE_KEY = None)
       \<and> (schemeChanged m s \<noteq> s \<longleftrightarrow> localStorage s THEME_STORAGE_KEY = None)
       \<and> (localStorage s THEME_STORAGE_KEY = None \<longrightarrow>
             getCurrentTheme (schemeChanged m s) = (if m then ''dark'' else ''light'')
           \<and> classList_contains TRANSITION_CLASS (rootClasses (schemeChanged m s))
           \<and> timers (schemeChanged m s) = timers s @ [(300, RemoveTransitionClass)]
           \<and> localStorage (schemeChanged m s) THEME_STORAGE_KEY
                = Some (if m then ''dark'' else ''light''))
       \<and> (schemeListeners p = 0 \<longrightarrow>
             schemeListeners (startup b p) = Suc 0
           \<and> schemeChanged m (removeItem THEME_STORAGE_KEY (startup b p))
                = setTheme m True (removeItem THEME_STORAGE_KEY (startup b p))
           \<and> getCurrentTheme (schemeChanged m (removeItem THEME_STORAGE_KEY (startup b p)))
                = (if m then ''dark'' else ''light''))"
proof -
  have l: "schemeChanged m s = schemeChangeListener m s"
    using assms(2) by (rule schemeChanged_one)
  have n: "schemeChanged m s = setTheme m True s" if "localStorage s THEME_STORAGE_KEY = None"
    using that by (simp add: l schemeChangeListener_def truthyItem_def)
  have v: "schemeChanged m s = s" if "localStorage s THEME_STORAGE_KEY \<noteq> None"
    using that assms(1) by (auto simp: l schemeChangeListener_def truthyItem_def)
  have c: "setTheme m True s \<noteq> s"
    by (rule setTheme_changes)
  have 1: "schemeChanged m s = setTheme m True s \<longleftrightarrow> localStorage s THEME_STORAGE_KEY = None"
    using n v c by metis
  have 2: "schemeChanged m s \<noteq> s \<longleftrightarrow> localStorage s THEME_STORAGE_KEY = None"
    using n v c by metis
  have 3: "getCurrentTheme (schemeChanged m s) = (if m then ''dark'' else ''light'')
           \<and> classList_contains TRANSITION_CLASS (rootClasses (schemeChanged m s))
           \<and> timers (schemeChanged m s) = timers s @ [(300, RemoveTransitionClass)]
           \<and> localStorage (schemeChanged m s) THEME_STORAGE_KEY
                = Some (if m then ''dark'' else ''light'')"
    if "localStorage s THEME_STORAGE_KEY = None"
    unfolding n [OF that]
    by (simp add: getCurrentTheme_setTheme)
       (simp add: setTheme_eq classList_contains_def themeClasses_transition)
  have 4: "schemeListeners (startup b p) = Suc 0
           \<and> schemeChanged m (removeItem THEME_STORAGE_KEY (startup b p))
                = setTheme m True (removeItem THEME_STORAGE_KEY (startup b p))
           \<and> getCurrentTheme (schemeChanged m (removeItem THEME_STORAGE_KEY (startup b p)))
                = (if m then ''dark'' else ''light'')"
    if z: "schemeListeners p = 0"
  proof -
    let ?r = "removeItem THEME_STORAGE_KEY (startup b p)"
    have one: "schemeListeners (startup b p) = Suc 0"
      using z by (simp add: schemeListeners_startup)
    then have "schemeListeners ?r = Suc 0"
      by (simp add: removeItem_def)
    then have "schemeChanged m ?r = schemeChangeListener m ?r"
      by (rule schemeChanged_one)
    also have "\<dots> = setTheme m True ?r"
      by (simp add: schemeChangeListener_def truthyItem_def removeItem_def)
    finally have e: "schemeChanged m ?r = setTheme m True ?r" .
    from one e show ?thesis
      by (simp add: getCurrentTheme_setTheme)
  qed
  from 1 2 3 4 show ?thesis by blast
qed

theorem schemeChanged_guard_witness:
  "getCurrentTheme (startup (sampleBrowser False ''en-US'') samplePage) = ''light''
 \<and> schemeChanged True (startup (sampleBrowser False ''en-US'') samplePage)
     = startup (sampleBrowser False ''en-US'') samplePage
 \<and> getCurrentTheme (schemeChanged True
      (removeItem THEME_STORAGE_KEY (startup (sampleBrowser False ''en-US'') samplePage)))
     = ''dark''"
proof -
  let ?b = "sampleBrowser False ''en-US''"
  let ?s = "startup ?b samplePage"
  let ?r = "removeItem THEME_STORAGE_KEY ?s"
  have z: "schemeListeners samplePage = 0"
    by (simp add: samplePage_def)
  have one: "schemeListeners ?s = Suc 0"
    using z by (simp add: schemeListeners_startup)
  have th: "getCurrentTheme ?s = ''light''"
    by (simp add: getCurrentTheme_startup getCurrentTheme_initializeTheme samplePage_def
        sampleBrowser_def)
  have st: "localStorage ?s THEME_STORAGE_KEY = Some ''light''"
    by (simp add: startup_frame initializeTheme_eq setTheme_eq samplePage_def sampleBrowser_def)
  then have d: "localStorage ?s THEME_STORAGE_KEY = None
         \<or> localStorage ?s THEME_STORAGE_KEY = Some ''dark''
         \<or> localStorage ?s THEME_STORAGE_KEY = Some ''light''"
    by simp
  have rn: "localStorage ?r THEME_STORAGE_KEY = None"
    by (simp add: removeItem_def)
  then have rd: "localStorage ?r THEME_STORAGE_KEY = None
         \<or> localStorage ?r THEME_STORAGE_KEY = Some ''dark''
         \<or> localStorage ?r THEME_STORAGE_KEY = Some ''light''"
    by simp
  have r1: "schemeListeners ?r = Suc 0"
    using one by (simp add: removeItem_def)
  note g1 = schemeChanged_guard [OF d one, of True samplePage ?b]
  note g2 = schemeChanged_guard [OF rd r1, of True samplePage ?b]
  from g1 [THEN conjunct2, THEN conjunct1] st
  have 1: "schemeChanged True ?s = ?s"
    by simp
  from g2 [THEN conjunct2, THEN conjunct2, THEN conjunct1] rn
  have 2: "getCurrentTheme (schemeChanged True ?r) = ''dark''"
    by simp
  from th 1 2 show ?thesis by simp
qed

section \<open>Reset and reload\<close>

text \<open>
  Claim C8. \<open>resetToSystemPreferences\<close> removes the theme key and the language key from the
  store, leaves every other key as it was and asks for a reload. The reloaded page starts
  the coordinator on that store: when the system reports dark and the browser locale is
  \<open>fr-CA\<close>, the page gets the dark theme and the language \<open>fr\<close> (the primary subtag of the
  locale in lower case, which is in the supported set), \<open>dark\<close> and \<open>fr\<close> are written
  under the two keys that the reset had just removed, and the start raises nothing.
\<close>

theorem reset_round_trip:
  assumes "prefersDark b" and "navigatorLanguage b = Some ''fr-CA''"
  shows "localStorage (resetToSystemPreferences s) THEME_STORAGE_KEY = None
       \<and> localStorage (resetToSystemPreferences s) LANGUAGE_STORAGE_KEY = None
       \<and> (\<forall>k. k \<noteq> THEME_STORAGE_KEY \<and> k \<noteq> LANGUAGE_STORAGE_KEY \<longrightarrow>
             localStorage (resetToSystemPreferences s) k = localStorage s k)
       \<and> reloads (resetToSystemPreferences s) = Suc (reloads s)
       \<and> getCurrentTheme (reload b markup (resetToSystemPreferences s)) = ''dark''
       \<and> classList_contains THEME_CLASS (rootClasses (reload b markup (resetToSystemPreferences s)))
       \<and> rootLang (reload b markup (resetToSystemPreferences s)) = Some ''fr''
       \<and> localStorage (reload b markup (resetToSystemPreferences s)) =
           (localStorage s)(THEME_STORAGE_KEY \<mapsto> ''dark'', LANGUAGE_STORAGE_KEY \<mapsto> ''fr'')
       \<and> uncaught (reload b markup (resetToSystemPreferences s)) = uncaught markup"
proof -
  let ?r = "resetToSystemPreferences s"
  let ?p = "markup\<lparr>localStorage := localStorage ?r\<rparr>"
  let ?s1 = "initializeTheme b ?p"
  have r1: "localStorage ?r THEME_STORAGE_KEY = None"
    using storage_keys_differ by (simp add: resetToSystemPreferences_eq)
  have r2: "localStorage ?r LANGUAGE_STORAGE_KEY = None"
    by (simp add: resetToSystemPreferences_eq)
  have r3: "\<forall>k. k \<noteq> THEME_STORAGE_KEY \<and> k \<noteq> LANGUAGE_STORAGE_KEY \<longrightarrow>
             localStorage ?r k = localStorage s k"
    by (simp add: resetToSystemPreferences_eq)
  have r4: "reloads ?r = Suc (reloads s)"
    by (simp add: resetToSystemPreferences_eq)
  have bl: "browserLang b = Some ''fr-CA''"
    using assms(2) by (simp add: browserLang_def)
  have fr: "toLowerCase (primarySubtag ''fr-CA'') = ''fr''"
    by (simp add: toLowerCase_def primarySubtag_def toLowerChar_def)
  have sup: "''fr'' \<in> set SUPPORTED_LANGUAGES"
    by (simp add: SUPPORTED_LANGUAGES_def)
  have det: "detectBrowserLanguage b = Inr ''fr''"
    using detectBrowserLanguage_Some [OF bl] fr sup by simp
  have th: "getCurrentTheme ?s1 = ''dark''"
    using assms(1) r1 by (simp add: getCurrentTheme_initializeTheme)
  have nl: "localStorage ?s1 LANGUAGE_STORAGE_KEY = None"
    using r2 storage_keys_differ by (simp add: initializeTheme_eq setTheme_eq)
  have il: "initializeLanguage b ?s1 = (None, setLanguage ''fr'' False ?s1)"
    by (simp add: initializeLanguage_def Let_def nl det)
  note ok = ThemeManager_ok [OF il]
  have st: "startup b ?p = snd (ThemeManager b ?p)"
    using ok(1) by (cases "ThemeManager b ?p") (simp add: startup_def)
  have a: "getCurrentTheme (reload b markup ?r) = ''dark''"
    using th by (simp add: reload_def getCurrentTheme_startup)
  then have a': "classList_contains THEME_CLASS (rootClasses (reload b markup ?r))"
    by (simp add: getCurrentTheme_def split: if_splits)
  have l: "rootLang (reload b markup ?r) = Some ''fr''"
    using sup by (simp add: reload_def rootLang_startup il setLanguage_eq Let_def)
  have "localStorage (reload b markup ?r) =
          (localStorage ?r)(THEME_STORAGE_KEY \<mapsto> ''dark'', LANGUAGE_STORAGE_KEY \<mapsto> ''fr'')"
    using ok(2) th sup by (simp add: reload_def st)
  also have "\<dots> = (localStorage s)(THEME_STORAGE_KEY \<mapsto> ''dark'', LANGUAGE_STORAGE_KEY \<mapsto> ''fr'')"
    by (auto simp: resetToSystemPreferences_eq fun_eq_iff)
  finally have sto: "localStorage (reload b markup ?r) =
          (localStorage s)(THEME_STORAGE_KEY \<mapsto> ''dark'', LANGUAGE_STORAGE_KEY \<mapsto> ''fr'')" .
  have "uncaught (snd (ThemeManager b ?p)) = uncaught ?p"
  proof -
    obtain e3 s3 where u: "setupEventListeners b (setLanguage ''fr'' False ?s1) = (e3, s3)"
      by (cases "setupEventListeners b (setLanguage ''fr'' False ?s1)")
    from u have "uncaught s3 = uncaught (setLanguage ''fr'' False ?s1)"
      using setupEventListeners_frame(3) [of b "setLanguage ''fr'' False ?s1"] by simp
    then have "uncaught s3 = uncaught ?p"
      by (simp add: setLanguage_eq Let_def initializeTheme_eq setTheme_eq)
    then show ?thesis
      by (simp add: ThemeManager_def Let_def il u applyAnimationStyles_def split: option.split)
  qed
  then have un: "uncaught (reload b markup ?r) = uncaught markup"
    by (simp add: reload_def st)
  from r1 r2 r3 r4 a a' l sto un show ?thesis by blast
qed

theorem reset_round_trip_witness:
  "getCurrentTheme (reload (sampleBrowser True ''fr-CA'') samplePage
      (resetToSystemPreferences (setItem THEME_STORAGE_KEY ''light''
         (setItem LANGUAGE_STORAGE_KEY ''de'' samplePage)))) = ''dark''
 \<and> rootLang (reload (sampleBrowser True ''fr-CA'') samplePage
      (resetToSystemPreferences (setItem THEME_STORAGE_KEY ''light''
         (setItem LANGUAGE_STORAGE_KEY ''de'' samplePage)))) = Some ''fr''
 \<and> localStorage (reload (sampleBrowser True ''fr-CA'') samplePage
      (resetToSystemPreferences (setItem THEME_STORAGE_KEY ''light''
         (setItem LANGUAGE_STORAGE_KEY ''de'' samplePage)))) THEME_STORAGE_KEY = Some ''dark''
 \<and> localStorage (reload (sampleBrowser True ''fr-CA'') samplePage
      (resetToSystemPreferences (setItem THEME_STORAGE_KEY ''light''
         (setItem LANGUAGE_STORAGE_KEY ''de'' samplePage)))) LANGUAGE_STORAGE_KEY = Some ''fr''"
proof -
  have a: "prefersDark (sampleBrowser True ''fr-CA'')"
    by (simp add: sampleBrowser_def)
  have b: "navigatorLanguage (sampleBrowser True ''fr-CA'') = Some ''fr-CA''"
    by (simp add: sampleBrowser_def)
  note r = reset_round_trip [OF a b, of "setItem THEME_STORAGE_KEY ''light''
         (setItem LANGUAGE_STORAGE_KEY ''de'' samplePage)" samplePage]
  from r have 1: "getCurrentTheme (reload (sampleBrowser True ''fr-CA'') samplePage
      (resetToSystemPreferences (setItem THEME_STORAGE_KEY ''light''
         (setItem LANGUAGE_STORAGE_KEY ''de'' samplePage)))) = ''dark''"
    by blast
  from r have 2: "rootLang (reload (sampleBrowser True ''fr-CA'') samplePage
      (resetToSystemPreferences (setItem THEME_STORAGE_KEY ''light''
         (setItem LANGUAGE_STORAGE_KEY ''de'' samplePage)))) = Some ''fr''"
    by blast
  from r have 3: "localStorage (reload (sampleBrowser True ''fr-CA'') samplePage
      (resetToSystemPreferences (setItem THEME_STORAGE_KEY ''light''
         (setItem LANGUAGE_STORAGE_KEY ''de'' samplePage)))) =
           (localStorage (setItem THEME_STORAGE_KEY ''light''
         (setItem LANGUAGE_STORAGE_KEY ''de'' samplePage)))
            (THEME_STORAGE_KEY \<mapsto> ''dark'', LANGUAGE_STORAGE_KEY \<mapsto> ''fr'')"
    by blast
  from 1 2 show ?thesis
    unfolding 3 using storage_keys_differ by simp
qed

section \<open>The theme stays stored\<close>






















end
